theory Spec2Isabelle
  imports Complex_Main
begin

section \<open>Values exchanged with the lookup service\<close>

text \<open>
  The module \<^verbatim>\<open>05_api_integration.py\<close> works on what \<^verbatim>\<open>response.json()\<close> returns: nested
  Python values built from \<^verbatim>\<open>None\<close>, booleans, numbers, strings, lists and dicts. A dict is an
  association list whose first binding of a key is the dict's entry. A Python \<^verbatim>\<open>str\<close> is the
  list of its UTF-8 bytes. Numbers are integers: no operation of the module looks at a number
  except for its truth value.
\<close>

datatype json =
    JNull
  | JBool bool
  | JNum int
  | JStr string
  | JArr "json list"
  | JObj "(string \<times> json) list"

text \<open>The exceptions the module can meet, by class. \<open>TimeoutException\<close> stands for
  \<^verbatim>\<open>httpx.TimeoutException\<close> and its subclasses, \<open>RequestError\<close> for every other transport
  failure of httpx (connection refused, protocol error, ...).\<close>

datatype exc =
    TimeoutException
  | RequestError
  | HTTPStatusError
  | JSONDecodeError
  | AttributeError
  | TypeError
  | KeyError
  | IndexError
  | OtherException

text \<open>Python's truth value of a decoded JSON value, as \<^verbatim>\<open>if authors\<close> tests it.\<close>

fun truthy :: "json \<Rightarrow> bool" where
  "truthy JNull = False"
| "truthy (JBool b) = b"
| "truthy (JNum n) = (n \<noteq> 0)"
| "truthy (JStr s) = (s \<noteq> [])"
| "truthy (JArr xs) = (xs \<noteq> [])"
| "truthy (JObj kvs) = (kvs \<noteq> [])"

text \<open>\<^verbatim>\<open>d.get(k, default)\<close>: only a dict has the method; on any other value the attribute
  lookup raises \<^verbatim>\<open>AttributeError\<close>.\<close>

fun dict_get :: "json \<Rightarrow> string \<Rightarrow> json \<Rightarrow> exc + json" where
  "dict_get (JObj kvs) k d = Inr (case map_of kvs k of None \<Rightarrow> d | Some v \<Rightarrow> v)"
| "dict_get JNull k d = Inl AttributeError"
| "dict_get (JBool b) k d = Inl AttributeError"
| "dict_get (JNum n) k d = Inl AttributeError"
| "dict_get (JStr s) k d = Inl AttributeError"
| "dict_get (JArr xs) k d = Inl AttributeError"

text \<open>The first character of a non-empty \<^verbatim>\<open>str\<close>: the leading byte tells how many bytes
  the character takes in UTF-8.\<close>

definition first_char :: "string \<Rightarrow> string" where
  "first_char s =
     (let b = (of_char (hd s) :: nat) in
      take (if b < 0x80 then 1 else if b < 0xE0 then 2 else if b < 0xF0 then 3 else 4) s)"

text \<open>\<^verbatim>\<open>x[0]\<close>: the first element of a list or the first character of a string
  (\<^verbatim>\<open>IndexError\<close> when empty); a dict decoded from JSON has string keys only, so the key
  \<^verbatim>\<open>0\<close> is a \<^verbatim>\<open>KeyError\<close>; the other values are not subscriptable.\<close>

fun subscript0 :: "json \<Rightarrow> exc + json" where
  "subscript0 (JArr []) = Inl IndexError"
| "subscript0 (JArr (x # xs)) = Inr x"
| "subscript0 (JStr []) = Inl IndexError"
| "subscript0 (JStr (c # cs)) = Inr (JStr (first_char (c # cs)))"
| "subscript0 (JObj kvs) = Inl KeyError"
| "subscript0 JNull = Inl TypeError"
| "subscript0 (JBool b) = Inl TypeError"
| "subscript0 (JNum n) = Inl TypeError"

section \<open>The record parser\<close>

text \<open>The string literals of the source; the bytes \<open>0xC5 0x9F\<close> and \<open>0xC4 0xB1\<close> are the
  UTF-8 encodings of the Turkish letters of the unknown-title and unknown-publisher defaults.\<close>

definition unknown_title :: json where
  "unknown_title = JStr (''Bilinmeyen Ba'' @ [CHR 0xC5, CHR 0x9F] @ ''l'' @ [CHR 0xC4, CHR 0xB1] @ ''k'')"

definition unknown_author :: json where
  "unknown_author = JStr ''Bilinmeyen Yazar''"

definition unknown_publisher :: json where
  "unknown_publisher = JStr (''Bilinmeyen Yay'' @ [CHR 0xC4, CHR 0xB1] @ ''nevi'')"

definition unknown_date :: json where
  "unknown_date = JStr ''Bilinmeyen Tarih''"

definition unknown_pages :: json where
  "unknown_pages = JStr ''Bilinmeyen Sayfa''"

text \<open>The dict \<^verbatim>\<open>fetch_book_info_sync\<close> and \<^verbatim>\<open>fetch_book_info_async\<close> return, and the larger
  one \<^verbatim>\<open>_parse_book_data\<close> returns. The values of \<open>title\<close> and \<open>author\<close> are whatever the
  service sent: the code does not check their types.\<close>

record book_info =
  title :: json
  author :: json
  isbn :: string
  raw_data :: json

record book_details = book_info +
  publisher :: json
  publish_date :: json
  number_of_pages :: json

text \<open>\<open>try_then\<close> sequences two steps: an exception raised by the first ends the
  computation.\<close>

definition try_then :: "exc + 'a \<Rightarrow> ('a \<Rightarrow> exc + 'b) \<Rightarrow> exc + 'b" where
  "try_then r f = (case r of Inl e \<Rightarrow> Inl e | Inr v \<Rightarrow> f v)"

text \<open>\<^verbatim>\<open>xs[0].get('name', default)\<close>.\<close>

definition first_name :: "json \<Rightarrow> json \<Rightarrow> exc + json" where
  "first_name xs d = try_then (subscript0 xs) (\<lambda>x. dict_get x ''name'' d)"

text \<open>\<^verbatim>\<open>OpenLibraryAPI._parse_book_data(book_data, isbn)\<close>, statement by statement. A
  conditional expression evaluates its test first: \<^verbatim>\<open>book_data.get('publishers')\<close>, whose
  default is \<^verbatim>\<open>None\<close>, comes before \<^verbatim>\<open>book_data.get('publishers', [{}])\<close>.\<close>

definition parse_book_data :: "json \<Rightarrow> string \<Rightarrow> exc + book_details" where
  "parse_book_data book_data isbn_arg =
     try_then (dict_get book_data ''title'' unknown_title) (\<lambda>title_v.
     try_then (dict_get book_data ''authors'' (JArr [])) (\<lambda>authors.
     try_then (if truthy authors then first_name authors unknown_author
               else Inr unknown_author) (\<lambda>author_v.
     try_then (dict_get book_data ''publishers'' JNull) (\<lambda>publishers_test.
     try_then (if truthy publishers_test
               then try_then (dict_get book_data ''publishers'' (JArr [JObj []]))
                      (\<lambda>publishers. first_name publishers unknown_publisher)
               else Inr unknown_publisher) (\<lambda>publisher_v.
     try_then (dict_get book_data ''publish_date'' unknown_date) (\<lambda>date_v.
     try_then (dict_get book_data ''number_of_pages'' unknown_pages) (\<lambda>pages_v.
       Inr \<lparr>title = title_v, author = author_v, isbn = isbn_arg, raw_data = book_data,
            publisher = publisher_v, publish_date = date_v,
            number_of_pages = pages_v\<rparr>)))))))"

text \<open>A list-valued field the parser can read: absent, false in Python's sense (empty list,
  \<^verbatim>\<open>None\<close>, ...), or a list whose first element is a mapping.\<close>

fun name_list_ok :: "json option \<Rightarrow> bool" where
  "name_list_ok None = True"
| "name_list_ok (Some (JArr (JObj kvs # xs))) = True"
| "name_list_ok (Some v) = (\<not> truthy v)"

section \<open>One lookup over HTTP\<close>

text \<open>What one HTTP request does: httpx raises, or a response arrives with a status code and a
  body. The body is \<open>None\<close> when \<^verbatim>\<open>response.json()\<close> cannot decode it (it raises
  \<^verbatim>\<open>json.JSONDecodeError\<close>) and the decoded value otherwise.\<close>

datatype http_result =
    Raises exc
  | Response int "json option"

text \<open>\<^verbatim>\<open>f"ISBN:{isbn}"\<close>.\<close>

definition isbn_key :: "string \<Rightarrow> string" where
  "isbn_key isbn_arg = ''ISBN:'' @ isbn_arg"

fun starts_with :: "string \<Rightarrow> string \<Rightarrow> bool" where
  "starts_with [] s = True"
| "starts_with (c # cs) [] = False"
| "starts_with (c # cs) (d # ds) = (c = d \<and> starts_with cs ds)"

fun contains_str :: "string \<Rightarrow> string \<Rightarrow> bool" where
  "contains_str k [] = (k = [])"
| "contains_str k (c # cs) = (starts_with k (c # cs) \<or> contains_str k cs)"

text \<open>\<^verbatim>\<open>isbn_key in data\<close>: key membership on a dict, element membership on a list, the
  substring test on a string, and \<^verbatim>\<open>TypeError\<close> on a value that is not iterable.\<close>

fun key_in :: "string \<Rightarrow> json \<Rightarrow> exc + bool" where
  "key_in k (JObj kvs) = Inr (map_of kvs k \<noteq> None)"
| "key_in k (JArr xs) = Inr (JStr k \<in> set xs)"
| "key_in k (JStr s) = Inr (contains_str k s)"
| "key_in k JNull = Inl TypeError"
| "key_in k (JBool b) = Inl TypeError"
| "key_in k (JNum n) = Inl TypeError"

text \<open>\<^verbatim>\<open>data[isbn_key]\<close> with a string key: the entry of a dict; a list or a string takes
  integer indices only.\<close>

fun subscript_key :: "json \<Rightarrow> string \<Rightarrow> exc + json" where
  "subscript_key (JObj kvs) k = (case map_of kvs k of None \<Rightarrow> Inl KeyError | Some v \<Rightarrow> Inr v)"
| "subscript_key (JArr xs) k = Inl TypeError"
| "subscript_key (JStr s) k = Inl TypeError"
| "subscript_key JNull k = Inl TypeError"
| "subscript_key (JBool b) k = Inl TypeError"
| "subscript_key (JNum n) k = Inl TypeError"

text \<open>Lines 52 to 61 (and 106 to 115): the dict built from the record fragment.\<close>

definition extract_info :: "json \<Rightarrow> string \<Rightarrow> exc + book_info" where
  "extract_info book_data isbn_arg =
     try_then (dict_get book_data ''title'' unknown_title) (\<lambda>title_v.
     try_then (dict_get book_data ''authors'' (JArr [])) (\<lambda>authors.
     try_then (if truthy authors then first_name authors unknown_author
               else Inr unknown_author) (\<lambda>author_v.
       Inr \<lparr>title = title_v, author = author_v, isbn = isbn_arg, raw_data = book_data\<rparr>)))"

text \<open>The statements inside the \<^verbatim>\<open>try\<close> of \<^verbatim>\<open>fetch_book_info_sync\<close> (lines 40 to 67); those
  of \<^verbatim>\<open>fetch_book_info_async\<close> after the request (lines 99 to 121) are the same text. \<open>Inl\<close> is
  an exception leaving the statements, \<open>Inr None\<close> the two \<^verbatim>\<open>return None\<close>.\<close>

definition fetch_body :: "http_result \<Rightarrow> string \<Rightarrow> exc + book_info option" where
  "fetch_body net isbn_arg =
     (case net of
        Raises e \<Rightarrow> Inl e
      | Response status_code body \<Rightarrow>
          if status_code = 200
          then (case body of
                  None \<Rightarrow> Inl JSONDecodeError
                | Some data \<Rightarrow>
                    try_then (key_in (isbn_key isbn_arg) data) (\<lambda>found.
                      if found
                      then try_then (subscript_key data (isbn_key isbn_arg)) (\<lambda>book_data.
                           try_then (extract_info book_data isbn_arg) (\<lambda>info. Inr (Some info)))
                      else Inr None))
          else Inr None)"

text \<open>The \<^verbatim>\<open>except\<close> clauses of \<^verbatim>\<open>fetch_book_info_sync\<close>, tried in order. The expression of a
  clause is evaluated when the clause is reached, and an exception raised by that evaluation
  leaves the whole \<^verbatim>\<open>try\<close> statement. The second clause names \<^verbatim>\<open>httpx.RequestException\<close>. httpx
  is not part of the repository, so whether the module has that attribute is the parameter
  \<open>has_RequestException\<close>; the released httpx names its transport error class
  \<^verbatim>\<open>RequestError\<close> and has no \<^verbatim>\<open>RequestException\<close> (that name is the one of the
  \<^verbatim>\<open>requests\<close> library). With the attribute present, one of the last three clauses catches
  every exception.\<close>

definition fetch_book_info_sync :: "bool \<Rightarrow> http_result \<Rightarrow> string \<Rightarrow> exc + book_info option" where
  "fetch_book_info_sync has_RequestException net isbn_arg =
     (case fetch_body net isbn_arg of
        Inr r \<Rightarrow> Inr r
      | Inl e \<Rightarrow>
          if e = TimeoutException then Inr None
          else if has_RequestException then Inr None
          else Inl AttributeError)"

text \<open>What surrounds the request in the asynchronous functions: creating the client
  (\<^verbatim>\<open>httpx.AsyncClient(timeout=10.0)\<close>) or closing it on leaving the \<^verbatim>\<open>async with\<close> block may
  raise as well.\<close>

record session =
  open_error :: "exc option"
  response :: http_result
  close_error :: "exc option"

text \<open>\<^verbatim>\<open>fetch_book_info_async\<close>: everything, the client's creation and closing included, is
  inside a \<^verbatim>\<open>try\<close> whose single clause \<^verbatim>\<open>except Exception\<close> returns \<^verbatim>\<open>None\<close>.\<close>

definition fetch_book_info_async :: "session \<Rightarrow> string \<Rightarrow> book_info option" where
  "fetch_book_info_async s isbn_arg =
     (case open_error s of
        Some e \<Rightarrow> None
      | None \<Rightarrow>
          (case fetch_body (response s) isbn_arg of
             Inl e \<Rightarrow> None
           | Inr r \<Rightarrow> (case close_error s of Some e \<Rightarrow> None | None \<Rightarrow> r)))"

section \<open>The API wrapper class\<close>

text \<open>\<^verbatim>\<open>response.raise_for_status()\<close> of httpx raises \<^verbatim>\<open>HTTPStatusError\<close> unless the status
  is a success status (2xx).\<close>

definition raise_for_status :: "int \<Rightarrow> exc + unit" where
  "raise_for_status status_code =
     (if 200 \<le> status_code \<and> status_code < 300 then Inr () else Inl HTTPStatusError)"

text \<open>The statements inside the \<^verbatim>\<open>try\<close> of \<^verbatim>\<open>OpenLibraryAPI.get_book_by_isbn\<close>.\<close>

definition get_book_body :: "http_result \<Rightarrow> string \<Rightarrow> exc + book_details option" where
  "get_book_body net isbn_arg =
     (case net of
        Raises e \<Rightarrow> Inl e
      | Response status_code body \<Rightarrow>
          try_then (raise_for_status status_code) (\<lambda>u.
            case body of
              None \<Rightarrow> Inl JSONDecodeError
            | Some data \<Rightarrow>
                try_then (key_in (isbn_key isbn_arg) data) (\<lambda>found.
                  if found
                  then try_then (subscript_key data (isbn_key isbn_arg)) (\<lambda>book_data.
                       try_then (parse_book_data book_data isbn_arg) (\<lambda>r. Inr (Some r)))
                  else Inr None)))"

text \<open>\<^verbatim>\<open>get_book_by_isbn\<close>: \<^verbatim>\<open>except Exception\<close> turns every exception into \<^verbatim>\<open>None\<close>.\<close>

definition get_book_by_isbn :: "http_result \<Rightarrow> string \<Rightarrow> book_details option" where
  "get_book_by_isbn net isbn_arg =
     (case get_book_body net isbn_arg of Inl e \<Rightarrow> None | Inr r \<Rightarrow> r)"

section \<open>The retry wrapper\<close>

text \<open>What \<^verbatim>\<open>fetch_with_retry\<close> does besides returning: it calls \<^verbatim>\<open>get_book_by_isbn\<close> (in the
  loop iteration of the given number, counted from 0) and it sleeps. The log lists these
  events in the order they happen.\<close>

datatype event =
    Fetched nat
  | Slept rat

text \<open>One pass through the \<^verbatim>\<open>async with OpenLibraryAPI() as api\<close> block: \<^verbatim>\<open>__aenter__\<close> creates
  the client, the body calls \<^verbatim>\<open>get_book_by_isbn\<close>, and \<^verbatim>\<open>__aexit__\<close> closes the client on the
  way out, also when the body returns. \<open>Inl\<close> is an exception leaving the block; the flag tells
  whether the lookup was called.\<close>

definition api_block :: "session \<Rightarrow> string \<Rightarrow> (exc + book_details option) \<times> bool" where
  "api_block s isbn_arg =
     (case open_error s of
        Some e \<Rightarrow> (Inl e, False)
      | None \<Rightarrow>
          (case close_error s of
             Some e \<Rightarrow> (Inl e, True)
           | None \<Rightarrow> (Inr (get_book_by_isbn (response s) isbn_arg), True)))"

text \<open>The \<^verbatim>\<open>for attempt in range(max_retries)\<close> loop over the attempts still to make. The
  network is a function giving the session of each attempt. A dict returned by
  \<^verbatim>\<open>_parse_book_data\<close> has seven keys, so \<^verbatim>\<open>if result\<close> holds exactly when the result is not
  \<^verbatim>\<open>None\<close>. The delay is a rational number: doubling a binary floating-point number is exact
  below overflow.\<close>

fun retry_loop ::
  "(nat \<Rightarrow> session) \<Rightarrow> string \<Rightarrow> int \<Rightarrow> nat list \<Rightarrow> rat \<Rightarrow> event list
     \<Rightarrow> book_details option \<times> event list" where
  "retry_loop net isbn_arg max_retries [] delay evs = (None, evs)"
| "retry_loop net isbn_arg max_retries (attempt # rest) delay evs =
     (case api_block (net attempt) isbn_arg of
        (Inr (Some r), called) \<Rightarrow> (Some r, evs @ [Fetched attempt])
      | (Inr None, called) \<Rightarrow>
          retry_loop net isbn_arg max_retries rest delay (evs @ [Fetched attempt])
      | (Inl e, called) \<Rightarrow>
          (let evs1 = (if called then evs @ [Fetched attempt] else evs) in
           if int attempt < max_retries - 1
           then retry_loop net isbn_arg max_retries rest (delay * 2) (evs1 @ [Slept delay])
           else retry_loop net isbn_arg max_retries rest delay evs1))"

text \<open>\<^verbatim>\<open>fetch_with_retry(isbn, max_retries, delay)\<close>; \<^verbatim>\<open>range(n)\<close> is empty for \<open>n \<le> 0\<close>.\<close>

definition fetch_with_retry ::
  "(nat \<Rightarrow> session) \<Rightarrow> string \<Rightarrow> int \<Rightarrow> rat \<Rightarrow> book_details option \<times> event list" where
  "fetch_with_retry net isbn_arg max_retries delay =
     retry_loop net isbn_arg max_retries [0..<nat max_retries] delay []"

text \<open>The number of lookups a log records, and the delays it records, in order.\<close>

fun attempts_of :: "event list \<Rightarrow> nat" where
  "attempts_of [] = 0"
| "attempts_of (Fetched n # es) = Suc (attempts_of es)"
| "attempts_of (Slept d # es) = attempts_of es"

fun delays_of :: "event list \<Rightarrow> rat list" where
  "delays_of [] = []"
| "delays_of (Fetched n # es) = delays_of es"
| "delays_of (Slept d # es) = d # delays_of es"

section \<open>The batch orchestrator\<close>

text \<open>What \<^verbatim>\<open>asyncio.gather(*tasks, return_exceptions=True)\<close> puts in its result list for one
  task. A task that returns gives its value. A task that raises gives the exception object,
  and the loop of the source tells two kinds apart: \<open>Raised e\<close> is an instance of
  \<^verbatim>\<open>Exception\<close>; \<open>Cancelled\<close> is the \<^verbatim>\<open>CancelledError\<close> of a task that was cancelled while
  gather waited, which is a \<^verbatim>\<open>BaseException\<close> but not an \<^verbatim>\<open>Exception\<close>. (When the call of
  gather itself is cancelled, the \<^verbatim>\<open>await\<close> raises and the function returns nothing: that is
  outside this model.)\<close>

datatype task_result =
    Raised exc
  | Cancelled
  | Returned "book_info option"

text \<open>The list \<^verbatim>\<open>results\<close>: gather keeps the order of the tasks, whatever the order in which
  they finish. \<open>run i k\<close> is the outcome of the task at position \<open>i\<close>, made for the key
  \<open>k\<close>.\<close>

definition gather :: "(nat \<Rightarrow> string \<Rightarrow> task_result) \<Rightarrow> string list \<Rightarrow> task_result list" where
  "gather run isbns = map (\<lambda>(i, k). run i k) (enumerate 0 isbns)"

text \<open>What the list \<^verbatim>\<open>books\<close> can hold: the dict a task returned, or the exception object of
  a cancelled task.\<close>

datatype appended =
    BookDict book_info
  | CancelledErrorObject

text \<open>The loop over \<^verbatim>\<open>results\<close> with its accumulator \<^verbatim>\<open>books\<close>. The first test,
  \<^verbatim>\<open>isinstance(result, Exception)\<close>, holds for \<open>Raised e\<close> only: that result is printed and
  not appended. The second test, \<^verbatim>\<open>elif result\<close>, is Python's truth value: a returned dict has
  four keys and is true, \<^verbatim>\<open>None\<close> is false, and an exception object is true, so the
  \<^verbatim>\<open>CancelledError\<close> that failed the first test is appended.\<close>

fun collect_books :: "task_result list \<Rightarrow> appended list \<Rightarrow> appended list" where
  "collect_books [] books = books"
| "collect_books (Raised e # results) books = collect_books results books"
| "collect_books (Cancelled # results) books =
     collect_books results (books @ [CancelledErrorObject])"
| "collect_books (Returned None # results) books = collect_books results books"
| "collect_books (Returned (Some b) # results) books =
     collect_books results (books @ [BookDict b])"

definition fetch_multiple_books_async ::
  "(nat \<Rightarrow> string \<Rightarrow> task_result) \<Rightarrow> string list \<Rightarrow> appended list" where
  "fetch_multiple_books_async run isbns = collect_books (gather run isbns) []"

text \<open>The tasks the source creates, \<^verbatim>\<open>fetch_book_info_async(isbn)\<close>, over a network that
  gives the session of each task and a schedule that tells which tasks are cancelled. A task
  that is not cancelled returns what \<^verbatim>\<open>fetch_book_info_async\<close> returns; the function catches
  every \<^verbatim>\<open>Exception\<close> itself, so such a task never gives \<open>Raised e\<close>.\<close>

definition async_task ::
  "(nat \<Rightarrow> session) \<Rightarrow> (nat \<Rightarrow> bool) \<Rightarrow> nat \<Rightarrow> string \<Rightarrow> task_result" where
  "async_task net cancelled i isbn_arg =
     (if cancelled i then Cancelled else Returned (fetch_book_info_async (net i) isbn_arg))"

text \<open>What one task result adds to \<^verbatim>\<open>books\<close>, if anything.\<close>

fun appended_of :: "task_result \<Rightarrow> appended option" where
  "appended_of (Raised e) = None"
| "appended_of Cancelled = Some CancelledErrorObject"
| "appended_of (Returned None) = None"
| "appended_of (Returned (Some b)) = Some (BookDict b)"

text \<open>A batch of the single key \<open>k\<close>, run with the session and the schedule of position
  \<open>i\<close>: what that key's task gives when it is alone.\<close>

definition alone :: "(nat \<Rightarrow> session) \<Rightarrow> (nat \<Rightarrow> bool) \<Rightarrow> nat \<Rightarrow> string \<Rightarrow> appended list" where
  "alone net cancelled i k =
     fetch_multiple_books_async (async_task (\<lambda>j. net i) (\<lambda>j. cancelled i)) [k]"

section \<open>Example networks\<close>

text \<open>A reachable service that has no entry for the key, a transport that fails, and a service
  that answers with a record for the key.\<close>

definition absent_session :: session where
  "absent_session =
     \<lparr>open_error = None, response = Response 200 (Some (JObj [])), close_error = None\<rparr>"

definition failing_session :: session where
  "failing_session =
     \<lparr>open_error = None, response = Raises RequestError, close_error = None\<rparr>"

definition dune_body :: "string \<Rightarrow> json" where
  "dune_body k = JObj [(isbn_key k, JObj [(''title'', JStr ''Dune'')])]"

definition found_session :: "string \<Rightarrow> session" where
  "found_session k =
     \<lparr>open_error = None, response = Response 200 (Some (dune_body k)), close_error = None\<rparr>"

definition dune_info :: "string \<Rightarrow> book_info" where
  "dune_info k =
     \<lparr>title = JStr ''Dune'', author = unknown_author, isbn = k,
      raw_data = JObj [(''title'', JStr ''Dune'')]\<rparr>"

definition dune_details :: "string \<Rightarrow> book_details" where
  "dune_details k =
     \<lparr>title = JStr ''Dune'', author = unknown_author, isbn = k,
      raw_data = JObj [(''title'', JStr ''Dune'')], publisher = unknown_publisher,
      publish_date = unknown_date, number_of_pages = unknown_pages\<rparr>"

text \<open>The transport fails on the first two attempts and the service answers on the third.\<close>

definition fail_twice_then_succeed :: "nat \<Rightarrow> session" where
  "fail_twice_then_succeed n = (if n < 2 then failing_session else found_session ''123'')"

text \<open>Three tasks of a batch: the second one's transport fails, the others find their
  records.\<close>

definition middle_fails :: "nat \<Rightarrow> session" where
  "middle_fails i =
     (if i = 0 then found_session ''111''
      else if i = 1 then failing_session
      else found_session ''333'')"

text \<open>A service that answers 200 with an entry for the key that is a number, not a mapping:
  \<^verbatim>\<open>book_data.get\<close> raises \<^verbatim>\<open>AttributeError\<close> inside the fetch.\<close>

definition malformed_session :: "string \<Rightarrow> session" where
  "malformed_session k =
     \<lparr>open_error = None, response = Response 200 (Some (JObj [(isbn_key k, JNum 5)])),
      close_error = None\<rparr>"

text \<open>Two tasks of a batch: the first meets the malformed entry, the second finds its
  record.\<close>

definition first_malformed :: "nat \<Rightarrow> session" where
  "first_malformed i = (if i = 0 then malformed_session ''111'' else found_session ''222'')"

text \<open>Two tasks of a batch: the first finds its record, the service has no entry for the
  second.\<close>

definition second_absent :: "nat \<Rightarrow> session" where
  "second_absent i = (if i = 0 then found_session ''111'' else absent_session)"

text \<open>Schedules: no task is cancelled; the first task is cancelled.\<close>

definition none_cancelled :: "nat \<Rightarrow> bool" where
  "none_cancelled i = False"

definition first_cancelled :: "nat \<Rightarrow> bool" where
  "first_cancelled i = (i = 0)"

text \<open>A response that confirms the absence of the key: a success status and a body that
  decodes to a mapping without the entry \<^verbatim>\<open>ISBN:<key>\<close>.\<close>

fun absent_response :: "http_result \<Rightarrow> string \<Rightarrow> bool" where
  "absent_response (Response status_code (Some (JObj kvs))) k =
     (200 \<le> status_code \<and> status_code < 300 \<and> map_of kvs (isbn_key k) = None)"
| "absent_response net k = False"

section \<open>Auxiliary facts\<close>

lemma name_list_ok_cases:
  "name_list_ok v \<Longrightarrow>
     v = None \<or> (\<exists>x. v = Some x \<and> \<not> truthy x) \<or> (\<exists>kvs xs. v = Some (JArr (JObj kvs # xs)))"
  by (induction v rule: name_list_ok.induct) auto

lemma first_name_mapping:
  "first_name (JArr (JObj f # xs)) d = Inr (case map_of f ''name'' of None \<Rightarrow> d | Some v \<Rightarrow> v)"
  by (simp add: first_name_def try_then_def)

lemma retry_loop_none:
  "\<forall>n \<in> set as. api_block (net n) k = (Inr None, True) \<Longrightarrow>
   retry_loop net k m as d evs = (None, evs @ map Fetched as)"
  by (induction as arbitrary: evs) simp_all

lemma fetch_with_retry_none:
  assumes "\<forall>n < nat m. api_block (net n) k = (Inr None, True)"
  shows "fetch_with_retry net k m d = (None, map Fetched [0..<nat m])"
  using assms by (simp add: fetch_with_retry_def retry_loop_none)

lemma attempts_of_Fetched: "attempts_of (map Fetched ns) = length ns"
  by (induction ns) simp_all

lemma delays_of_Fetched: "delays_of (map Fetched ns) = []"
  by (induction ns) simp_all

lemma absent_response_None: "absent_response r k \<Longrightarrow> get_book_by_isbn r k = None"
  by (induction r k rule: absent_response.induct)
     (simp_all add: get_book_by_isbn_def get_book_body_def raise_for_status_def try_then_def)

lemma failing_None: "get_book_body r k = Inl e \<Longrightarrow> get_book_by_isbn r k = None"
  by (simp add: get_book_by_isbn_def)

lemma api_block_quiet:
  "open_error s = None \<Longrightarrow> close_error s = None \<Longrightarrow> get_book_by_isbn (response s) k = None \<Longrightarrow>
   api_block s k = (Inr None, True)"
  by (simp add: api_block_def)

lemma api_block_open_error: "open_error s = Some e \<Longrightarrow> api_block s k = (Inl e, False)"
  by (simp add: api_block_def)

lemma collect_books_acc:
  "collect_books rs books = books @ List.map_filter appended_of rs"
  by (induction rs books rule: collect_books.induct) simp_all

lemma length_gather: "length (gather run isbns) = length isbns"
  by (simp add: gather_def)

lemma length_map_filter_le: "length (List.map_filter f xs) \<le> length xs"
  by (induction xs) (simp_all split: option.splits)

lemma length_map_filter_eq:
  "length (List.map_filter f xs) = length xs \<longleftrightarrow> (\<forall>x \<in> set xs. f x \<noteq> None)"
proof (induction xs)
  case Nil
  show ?case by simp
next
  case (Cons x xs)
  have le: "length (List.map_filter f xs) \<le> length xs" by (rule length_map_filter_le)
  show ?case
  proof (cases "f x")
    case None
    with le show ?thesis by simp
  next
    case (Some y)
    with Cons show ?thesis by simp
  qed
qed

lemma map_filter_map_comp:
  "List.map_filter f (map g xs) = List.map_filter (\<lambda>x. f (g x)) xs"
  by (induction xs) (simp_all split: option.splits)

lemma found_async: "fetch_book_info_async (found_session k) k = Some (dune_info k)"
  by (simp add: fetch_book_info_async_def found_session_def fetch_body_def dune_body_def
      try_then_def extract_info_def dune_info_def)

lemma failing_async: "fetch_book_info_async failing_session k = None"
  by (simp add: fetch_book_info_async_def failing_session_def fetch_body_def)

lemma absent_async: "fetch_book_info_async absent_session k = None"
  by (simp add: fetch_book_info_async_def absent_session_def fetch_body_def try_then_def)

lemma malformed_body: "fetch_body (response (malformed_session k)) k = Inl AttributeError"
  by (simp add: malformed_session_def fetch_body_def try_then_def extract_info_def)

lemma malformed_async: "fetch_book_info_async (malformed_session k) k = None"
proof -
  have "open_error (malformed_session k) = None"
    by (simp add: malformed_session_def)
  then show ?thesis
    by (simp add: fetch_book_info_async_def malformed_body)
qed

lemma gather_async_not_cancelled:
  assumes "\<forall>i < length isbns. \<not> cancelled i"
  shows "gather (async_task net cancelled) isbns
           = map (\<lambda>(i, k). Returned (fetch_book_info_async (net i) k)) (enumerate 0 isbns)"
  unfolding gather_def
proof (rule map_cong [OF refl])
  fix x assume "x \<in> set (enumerate 0 isbns)"
  then have "fst x < length isbns" by (auto simp: in_set_enumerate_eq)
  with assms have "\<not> cancelled (fst x)" by blast
  then show "(case x of (i, k) \<Rightarrow> async_task net cancelled i k)
               = (case x of (i, k) \<Rightarrow> Returned (fetch_book_info_async (net i) k))"
    by (simp add: async_task_def case_prod_unfold)
qed

lemma map_filter_Returned:
  "List.map_filter (\<lambda>x. appended_of (Returned (f x))) xs = map BookDict (List.map_filter f xs)"
  by (induction xs) (simp_all split: option.splits)

lemma map_filter_concat_singletons:
  "List.map_filter f xs = concat (map (\<lambda>x. List.map_filter f [x]) xs)"
  by (induction xs) (simp_all split: option.splits)

lemma alone_eq:
  "alone net cancelled i k = List.map_filter appended_of [async_task net cancelled i k]"
  by (simp add: alone_def fetch_multiple_books_async_def collect_books_acc gather_def
      async_task_def)

section \<open>The record parser substitutes its defaults\<close>

text \<open>
  Claim C6. For a record fragment that is a mapping, \<^verbatim>\<open>_parse_book_data\<close> raises nothing when
  optional fields are missing: whenever each of \<open>authors\<close> and \<open>publishers\<close> is absent, empty or a
  list starting with a mapping, it returns a record. In that record a missing title is the
  unknown-title default, a missing or empty authors list gives the unknown-author default,
  and the other missing fields take their defaults too; a title that is present is kept. The
  defaults are the literals of the source.
\<close>

theorem parse_book_data_defaults:
  assumes "name_list_ok (map_of kvs ''authors'')"
      and "name_list_ok (map_of kvs ''publishers'')"
  shows "\<exists>r. parse_book_data (JObj kvs) k = Inr r
           \<and> title r = (case map_of kvs ''title'' of None \<Rightarrow> unknown_title | Some t \<Rightarrow> t)
           \<and> (map_of kvs ''authors'' = None \<or> map_of kvs ''authors'' = Some (JArr [])
                \<longrightarrow> author r = unknown_author)
           \<and> (map_of kvs ''publishers'' = None \<longrightarrow> publisher r = unknown_publisher)
           \<and> (map_of kvs ''publish_date'' = None \<longrightarrow> publish_date r = unknown_date)
           \<and> (map_of kvs ''number_of_pages'' = None \<longrightarrow> number_of_pages r = unknown_pages)
           \<and> isbn r = k \<and> raw_data r = JObj kvs"
  using name_list_ok_cases[OF assms(1)] name_list_ok_cases[OF assms(2)]
  by (auto simp: parse_book_data_def try_then_def first_name_mapping split: option.splits)

text \<open>The fragment \<^verbatim>\<open>{"title": "Dune"}\<close>: the title is kept and the author is the default.\<close>

theorem parse_book_data_defaults_witness:
  "\<exists>r. parse_book_data (JObj [(''title'', JStr ''Dune'')]) ''0441013597'' = Inr r
       \<and> title r = JStr ''Dune'' \<and> author r = unknown_author"
  using parse_book_data_defaults [of "[(''title'', JStr ''Dune'')]" "''0441013597''"]
  by auto

section \<open>The retry wrapper with no attempt allowed\<close>

text \<open>
  Claim C10. With \<^verbatim>\<open>max_retries = 0\<close> the loop body never runs: \<^verbatim>\<open>fetch_with_retry\<close> returns
  \<^verbatim>\<open>None\<close>, and its log is empty, so it made no lookup and did not sleep, whatever the key,
  the network and the initial delay.
\<close>

theorem fetch_with_retry_zero:
  "fetch_with_retry net k 0 delay = (None, [])"
  by (simp add: fetch_with_retry_def)

section \<open>The retry wrapper and a lookup that finds nothing\<close>

text \<open>
  Claim C1, as the code has it. \<^verbatim>\<open>get_book_by_isbn\<close> reports a confirmed absence as \<^verbatim>\<open>None\<close>,
  and \<^verbatim>\<open>fetch_with_retry\<close> leaves its loop only on a result that is true. So when every attempt
  reaches the service and the service has no entry for the key, the wrapper makes all
  \<^verbatim>\<open>max_retries\<close> lookups, one per iteration, never sleeps, and returns \<^verbatim>\<open>None\<close>: one lookup
  only when \<^verbatim>\<open>max_retries\<close> is 1.
\<close>

theorem fetch_with_retry_absent:
  assumes "\<forall>n < nat m. open_error (net n) = None \<and> close_error (net n) = None
             \<and> absent_response (response (net n)) k"
  shows "fetch_with_retry net k m d = (None, map Fetched [0..<nat m])
         \<and> attempts_of (snd (fetch_with_retry net k m d)) = nat m
         \<and> delays_of (snd (fetch_with_retry net k m d)) = []"
proof -
  have "\<forall>n < nat m. api_block (net n) k = (Inr None, True)"
    using assms by (simp add: api_block_quiet absent_response_None)
  then have "fetch_with_retry net k m d = (None, map Fetched [0..<nat m])"
    by (rule fetch_with_retry_none)
  then show ?thesis
    by (simp add: attempts_of_Fetched delays_of_Fetched)
qed

theorem fetch_with_retry_absent_witness:
  "fetch_with_retry (\<lambda>n. absent_session) ''000-000-0000'' 2 1 = (None, [Fetched 0, Fetched 1])"
  using fetch_with_retry_absent [of 2 "\<lambda>n. absent_session" "''000-000-0000''" 1]
  by (simp add: absent_session_def isbn_key_def upt_conv_Cons)

text \<open>With three attempts allowed, an absent key is looked up three times, not once.\<close>

theorem fetch_with_retry_absent_counterexample:
  "attempts_of (snd (fetch_with_retry (\<lambda>n. absent_session) ''000-000-0000'' 3 1)) = 3
   \<and> attempts_of (snd (fetch_with_retry (\<lambda>n. absent_session) ''000-000-0000'' 3 1)) \<noteq> 1"
  by (simp add: fetch_with_retry_def absent_session_def api_block_def get_book_by_isbn_def
      get_book_body_def raise_for_status_def try_then_def isbn_key_def upt_conv_Cons)

section \<open>The retry wrapper and a lookup that always fails\<close>

text \<open>
  Claim C3, as the code has it. When the lookup of every attempt fails with an error (a
  transport error, an error status, an undecodable body, a fragment the parser cannot read),
  \<^verbatim>\<open>get_book_by_isbn\<close> has already turned the error into \<^verbatim>\<open>None\<close>; \<^verbatim>\<open>fetch_with_retry\<close> makes
  all \<^verbatim>\<open>max_retries\<close> lookups and returns \<^verbatim>\<open>None\<close>, never a record. The value carries no
  error kind: it is the value returned for a key the service does not have.
\<close>

theorem fetch_with_retry_failing:
  assumes "\<forall>n < nat m. open_error (net n) = None \<and> close_error (net n) = None
             \<and> (\<exists>e. get_book_body (response (net n)) k = Inl e)"
  shows "fetch_with_retry net k m d = (None, map Fetched [0..<nat m])
         \<and> attempts_of (snd (fetch_with_retry net k m d)) = nat m"
proof -
  have "\<forall>n < nat m. api_block (net n) k = (Inr None, True)"
    using assms by (auto simp: api_block_quiet failing_None)
  then have "fetch_with_retry net k m d = (None, map Fetched [0..<nat m])"
    by (rule fetch_with_retry_none)
  then show ?thesis
    by (simp add: attempts_of_Fetched)
qed

theorem fetch_with_retry_failing_witness:
  "fetch_with_retry (\<lambda>n. failing_session) ''123'' 3 1 = (None, [Fetched 0, Fetched 1, Fetched 2])"
  using fetch_with_retry_failing [of 3 "\<lambda>n. failing_session" "''123''" 1]
  by (simp add: failing_session_def get_book_body_def upt_conv_Cons)

text \<open>A transport that always fails and a service that lacks the key give the same result.\<close>

theorem fetch_with_retry_failing_counterexample:
  "fst (fetch_with_retry (\<lambda>n. failing_session) ''123'' 3 1) = None
   \<and> fst (fetch_with_retry (\<lambda>n. failing_session) ''123'' 3 1)
       = fst (fetch_with_retry (\<lambda>n. absent_session) ''123'' 3 1)"
  by (simp add: fetch_with_retry_def failing_session_def absent_session_def api_block_def
      get_book_by_isbn_def get_book_body_def raise_for_status_def try_then_def isbn_key_def
      upt_conv_Cons)

section \<open>The backoff of the retry wrapper\<close>

text \<open>
  The sleep and the doubling sit in the \<^verbatim>\<open>except\<close> clause of \<^verbatim>\<open>fetch_with_retry\<close>, so they run
  only when an exception leaves the \<^verbatim>\<open>async with\<close> block. There the rule is the documented
  one: when the client cannot be created on any attempt, the wrapper sleeps \<open>d\<close>, \<open>2d\<close>,
  \<open>4d\<close>, ... between the attempts and not after the last one.
\<close>

lemma retry_loop_open_errors:
  assumes "\<forall>n < nat m. \<exists>e. open_error (net n) = Some e"
  shows "retry_loop net k m [a..<nat m] d evs
           = (None, evs @ map (\<lambda>i. Slept (d * 2 ^ (i - a))) [a..<nat m - 1])"
proof (induction "nat m - a" arbitrary: a d evs)
  case 0
  then show ?case by simp
next
  case (Suc j)
  then have lt: "a < nat m" by simp
  then obtain e where e: "open_error (net a) = Some e" using assms by blast
  have split: "[a..<nat m] = a # [Suc a..<nat m]" using lt by (simp add: upt_conv_Cons)
  have j: "j = nat m - Suc a" using Suc.hyps(2) by simp
  show ?case
  proof (cases "int a < m - 1")
    case True
    then have lt1: "a < nat m - 1" by linarith
    have "map (\<lambda>i. Slept (d * 2 * 2 ^ (i - Suc a))) [Suc a..<nat m - 1]
            = map (\<lambda>i. Slept (d * 2 ^ (i - a))) [Suc a..<nat m - 1]"
    proof (rule map_cong [OF refl])
      fix i assume "i \<in> set [Suc a..<nat m - 1]"
      then have "i - a = Suc (i - Suc a)" by auto
      then show "Slept (d * 2 * 2 ^ (i - Suc a)) = Slept (d * 2 ^ (i - a))" by simp
    qed
    then show ?thesis
      using True lt1 Suc.hyps(1) [OF j, of "d * 2" "evs @ [Slept d]"]
      by (simp add: split api_block_open_error [OF e] upt_conv_Cons)
  next
    case False
    then have last: "Suc a = nat m" using lt by linarith
    then show ?thesis
      using False by (simp add: split api_block_open_error [OF e])
  qed
qed

lemma fetch_with_retry_backoff:
  assumes "\<forall>n < nat m. \<exists>e. open_error (net n) = Some e"
  shows "fetch_with_retry net k m d = (None, map (\<lambda>i. Slept (d * 2 ^ i)) [0..<nat m - 1])"
  using retry_loop_open_errors [OF assms, of k 0 d "[]"]
  by (simp add: fetch_with_retry_def)

text \<open>
  Claim C4. A lookup that fails never reaches that clause: \<^verbatim>\<open>get_book_by_isbn\<close> catches the
  exception and returns \<^verbatim>\<open>None\<close>. With a transport that fails twice and then delivers the
  record, and three attempts allowed, \<^verbatim>\<open>fetch_with_retry\<close> returns the record after three
  lookups, and no delay is observed where the claim expects \<open>d\<close> and \<open>2d\<close>.
\<close>

theorem fetch_with_retry_no_backoff:
  "fetch_with_retry fail_twice_then_succeed ''123'' 3 d
     = (Some (dune_details ''123''), [Fetched 0, Fetched 1, Fetched 2])
   \<and> delays_of (snd (fetch_with_retry fail_twice_then_succeed ''123'' 3 d)) = []"
  by (simp add: fetch_with_retry_def fail_twice_then_succeed_def failing_session_def
      found_session_def dune_body_def dune_details_def api_block_def get_book_by_isbn_def
      get_book_body_def raise_for_status_def try_then_def isbn_key_def upt_conv_Cons
      parse_book_data_def)

section \<open>The synchronous fetcher\<close>

text \<open>
  Claim C5, as the code has it. \<^verbatim>\<open>fetch_book_info_sync\<close> tests \<^verbatim>\<open>status_code == 200\<close>: every
  other status, the other success statuses included, returns \<^verbatim>\<open>None\<close>, a value that carries
  neither the status nor an error kind. With status 200, a body that decodes to a mapping
  holding the key, and a fragment that is a mapping whose authors the code can read, the
  function returns the record built from the fragment.
\<close>

theorem fetch_book_info_sync_status:
  "(status_code \<noteq> 200 \<longrightarrow> fetch_book_info_sync h (Response status_code body) k = Inr None)
   \<and> (map_of kvs (isbn_key k) = Some (JObj frag) \<and> name_list_ok (map_of frag ''authors'')
        \<longrightarrow> (\<exists>r. fetch_book_info_sync h (Response 200 (Some (JObj kvs))) k = Inr (Some r)
               \<and> title r = (case map_of frag ''title'' of None \<Rightarrow> unknown_title | Some t \<Rightarrow> t)
               \<and> (map_of frag ''authors'' = None \<or> map_of frag ''authors'' = Some (JArr [])
                    \<longrightarrow> author r = unknown_author)
               \<and> isbn r = k \<and> raw_data r = JObj frag))"
proof (intro conjI impI)
  assume "status_code \<noteq> 200"
  then show "fetch_book_info_sync h (Response status_code body) k = Inr None"
    by (simp add: fetch_book_info_sync_def fetch_body_def)
next
  assume a: "map_of kvs (isbn_key k) = Some (JObj frag) \<and> name_list_ok (map_of frag ''authors'')"
  then have ok: "name_list_ok (map_of frag ''authors'')" by simp
  from a name_list_ok_cases[OF ok]
  show "\<exists>r. fetch_book_info_sync h (Response 200 (Some (JObj kvs))) k = Inr (Some r)
               \<and> title r = (case map_of frag ''title'' of None \<Rightarrow> unknown_title | Some t \<Rightarrow> t)
               \<and> (map_of frag ''authors'' = None \<or> map_of frag ''authors'' = Some (JArr [])
                    \<longrightarrow> author r = unknown_author)
               \<and> isbn r = k \<and> raw_data r = JObj frag"
    by (auto simp: fetch_book_info_sync_def fetch_body_def try_then_def extract_info_def
        first_name_mapping split: option.splits)
qed

theorem fetch_book_info_sync_status_witness:
  "fetch_book_info_sync False (Response 404 None) ''123'' = Inr None
   \<and> (\<exists>r. fetch_book_info_sync False (Response 200 (Some (dune_body ''123''))) ''123''
              = Inr (Some r)
         \<and> title r = JStr ''Dune'' \<and> author r = unknown_author)"
  using fetch_book_info_sync_status [of 404 False None "''123''"
      "[(isbn_key ''123'', JObj [(''title'', JStr ''Dune'')])]" "[(''title'', JStr ''Dune'')]"]
  by (auto simp: dune_body_def)

text \<open>Status 201 with the key present returns \<^verbatim>\<open>None\<close>; status 200 returns the record.\<close>

theorem fetch_book_info_sync_status_counterexample:
  "fetch_book_info_sync False (Response 201 (Some (dune_body ''123''))) ''123'' = Inr None
   \<and> fetch_book_info_sync True (Response 201 (Some (dune_body ''123''))) ''123'' = Inr None
   \<and> fetch_book_info_sync False (Response 200 (Some (dune_body ''123''))) ''123''
       = Inr (Some (dune_info ''123''))"
  by (simp add: fetch_book_info_sync_def fetch_body_def dune_body_def try_then_def
      extract_info_def dune_info_def)

text \<open>
  Claim C7. \<^verbatim>\<open>fetch_book_info_sync\<close> is written to return \<^verbatim>\<open>None\<close> on every failure, but its
  second \<^verbatim>\<open>except\<close> clause names an attribute httpx does not have. A connection failure is
  not a timeout, so the search for a handler reaches that clause, and the \<^verbatim>\<open>AttributeError\<close>
  of its evaluation leaves the function.
\<close>

theorem fetch_book_info_sync_propagates:
  "fetch_book_info_sync False (Raises RequestError) ''123'' = Inl AttributeError"
  by (simp add: fetch_book_info_sync_def fetch_body_def)

text \<open>The exceptions that leave the function are exactly these: without the attribute, every
  exception of the body other than a timeout; with it, none.\<close>

lemma fetch_book_info_sync_raises_iff:
  "fetch_book_info_sync h net k = Inl x \<longleftrightarrow>
     (\<not> h \<and> x = AttributeError \<and> (\<exists>e. fetch_body net k = Inl e \<and> e \<noteq> TimeoutException))"
  by (auto simp: fetch_book_info_sync_def split: sum.splits)

section \<open>The batch orchestrator returns the records found\<close>

text \<open>
  Claim C2, as the code has it. In a run where no task is cancelled, the list
  \<^verbatim>\<open>fetch_multiple_books_async\<close> returns holds, in the order of the keys, the record of each key
  whose fetch returned one, and nothing for a key whose fetch returned \<^verbatim>\<open>None\<close> (the key is
  absent, or the fetch failed and caught its error). So the list has one element per key
  exactly when every fetch returned a record.
\<close>

theorem fetch_multiple_books_async_pipeline:
  assumes "\<forall>i < length isbns. \<not> cancelled i"
  shows "fetch_multiple_books_async (async_task net cancelled) isbns
           = map BookDict
               (List.map_filter (\<lambda>(i, k). fetch_book_info_async (net i) k) (enumerate 0 isbns))
         \<and> (length (fetch_multiple_books_async (async_task net cancelled) isbns) = length isbns
              \<longleftrightarrow> (\<forall>(i, k) \<in> set (enumerate 0 isbns). fetch_book_info_async (net i) k \<noteq> None))"
proof -
  have a: "fetch_multiple_books_async (async_task net cancelled) isbns
     = map BookDict
         (List.map_filter (\<lambda>(i, k). fetch_book_info_async (net i) k) (enumerate 0 isbns))"
    using map_filter_Returned
            [of "\<lambda>x. fetch_book_info_async (net (fst x)) (snd x)" "enumerate 0 isbns"]
    by (simp add: fetch_multiple_books_async_def collect_books_acc
        gather_async_not_cancelled [OF assms] map_filter_map_comp case_prod_unfold)
  show ?thesis
    unfolding a
    using length_map_filter_eq
            [of "\<lambda>(i, k). fetch_book_info_async (net i) k" "enumerate 0 isbns"]
    by (simp add: case_prod_unfold)
qed

text \<open>Two keys, the second absent from the service: one record comes back.\<close>

theorem fetch_multiple_books_async_pipeline_witness:
  "fetch_multiple_books_async (async_task second_absent none_cancelled) [''111'', ''222'']
     = [BookDict (dune_info ''111'')]
   \<and> length (fetch_multiple_books_async (async_task second_absent none_cancelled)
               [''111'', ''222''])
       \<noteq> length [''111'', ''222'']"
  using fetch_multiple_books_async_pipeline [of "[''111'', ''222'']" none_cancelled second_absent]
  by (simp add: none_cancelled_def second_absent_def found_async absent_async)

text \<open>Three keys, the second one's fetch failing: two records come back, not three
  outcomes.\<close>

theorem fetch_multiple_books_async_counterexample:
  "fetch_multiple_books_async (async_task middle_fails none_cancelled) [''111'', ''222'', ''333'']
     = [BookDict (dune_info ''111''), BookDict (dune_info ''333'')]
   \<and> length (fetch_multiple_books_async (async_task middle_fails none_cancelled)
               [''111'', ''222'', ''333'']) \<noteq> 3"
  by (simp add: fetch_multiple_books_async_def gather_def async_task_def middle_fails_def
      none_cancelled_def found_async failing_async)

section \<open>An error inside one fetch does not disturb the others\<close>

text \<open>
  Claim C8, as the code has it. Each task adds to the returned list what it would add in a
  batch of its own, whatever the other tasks do: the list is the concatenation of the
  single-task results, in the order of the keys. A task that is not cancelled and whose fetch
  raised an error inside (caught by the fetch itself, which then returns \<^verbatim>\<open>None\<close>) adds
  nothing, so the error is no outcome of its key in the result; a task that is not cancelled
  and whose fetch returned a record adds exactly that record.
\<close>

theorem fetch_multiple_books_async_isolation:
  "fetch_multiple_books_async (async_task net cancelled) isbns
     = concat (map (\<lambda>(i, k). alone net cancelled i k) (enumerate 0 isbns))
   \<and> (\<not> cancelled i \<and> fetch_body (response (net i)) k = Inl e
        \<longrightarrow> alone net cancelled i k = [])
   \<and> (\<not> cancelled j \<and> fetch_book_info_async (net j) k' = Some b
        \<longrightarrow> alone net cancelled j k' = [BookDict b])"
proof (intro conjI impI)
  have "fetch_multiple_books_async (async_task net cancelled) isbns
          = List.map_filter appended_of (gather (async_task net cancelled) isbns)"
    by (simp add: fetch_multiple_books_async_def collect_books_acc)
  also have "\<dots> = concat (map (\<lambda>r. List.map_filter appended_of [r])
                             (gather (async_task net cancelled) isbns))"
    by (rule map_filter_concat_singletons)
  also have "\<dots> = concat (map (\<lambda>(i, k). alone net cancelled i k) (enumerate 0 isbns))"
    by (simp add: gather_def alone_eq comp_def case_prod_unfold)
  finally show "fetch_multiple_books_async (async_task net cancelled) isbns
     = concat (map (\<lambda>(i, k). alone net cancelled i k) (enumerate 0 isbns))" .
next
  assume "\<not> cancelled i \<and> fetch_body (response (net i)) k = Inl e"
  then show "alone net cancelled i k = []"
    by (simp add: alone_eq async_task_def fetch_book_info_async_def split: option.splits)
next
  assume "\<not> cancelled j \<and> fetch_book_info_async (net j) k' = Some b"
  then show "alone net cancelled j k' = [BookDict b]"
    by (simp add: alone_eq async_task_def)
qed

theorem fetch_multiple_books_async_isolation_witness:
  "fetch_multiple_books_async (async_task first_malformed none_cancelled) [''111'', ''222'']
     = alone first_malformed none_cancelled 0 ''111''
       @ alone first_malformed none_cancelled 1 ''222''
   \<and> alone first_malformed none_cancelled 0 ''111'' = []
   \<and> alone first_malformed none_cancelled 1 ''222'' = [BookDict (dune_info ''222'')]"
  using fetch_multiple_books_async_isolation
          [of first_malformed none_cancelled "[''111'', ''222'']" 0 "''111''" AttributeError
              1 "''222''" "dune_info ''222''"]
  by (simp add: none_cancelled_def first_malformed_def malformed_body found_async)

text \<open>The service's entry for the first key is malformed: \<^verbatim>\<open>AttributeError\<close> is raised inside
  that key's fetch, and the returned list has no element for the key.\<close>

theorem fetch_multiple_books_async_isolation_counterexample:
  "fetch_body (response (first_malformed 0)) ''111'' = Inl AttributeError
   \<and> fetch_multiple_books_async (async_task first_malformed none_cancelled) [''111'', ''222'']
       = [BookDict (dune_info ''222'')]
   \<and> length (fetch_multiple_books_async (async_task first_malformed none_cancelled)
               [''111'', ''222'']) \<noteq> 2"
  by (simp add: fetch_multiple_books_async_def gather_def async_task_def first_malformed_def
      none_cancelled_def malformed_body malformed_async found_async)

section \<open>A cancelled task in the batch\<close>

text \<open>The parts of the description of the returned list that hold in every run: it is no
  longer than the list of keys, and it is empty for no keys.\<close>

lemma fetch_multiple_books_async_length:
  "length (fetch_multiple_books_async run isbns) \<le> length isbns
   \<and> fetch_multiple_books_async run [] = []"
  using length_map_filter_le [of appended_of "gather run isbns"]
  by (simp add: fetch_multiple_books_async_def collect_books_acc gather_def)

text \<open>
  Claim C9. The loop means to keep exceptions out of the returned list, which its docstring
  calls the list of book infos, but its test \<^verbatim>\<open>isinstance(result, Exception)\<close> misses the
  \<^verbatim>\<open>CancelledError\<close> of a cancelled task. With two keys, the first task cancelled and the
  second finding its record, the returned list holds the exception object and the record.
\<close>

theorem fetch_multiple_books_async_appends_cancelled:
  "fetch_multiple_books_async (async_task (\<lambda>i. found_session ''222'') first_cancelled)
     [''111'', ''222'']
     = [CancelledErrorObject, BookDict (dune_info ''222'')]"
  by (simp add: fetch_multiple_books_async_def gather_def async_task_def first_cancelled_def
      found_async)

end
